theory Spec2Isabelle
  imports Main "HOL-Library.Sublist"
begin

section \<open>Python values, errors and the clock\<close>

text \<open>
  The program is dynamically typed: whatever \<^verbatim>\<open>json.load\<close> finds in the backing file is
  stored unchecked in the fields of a task and in the counter of the manager. The fields are
  therefore values of one type of Python values, as far as JSON can produce them. Numbers
  with a fraction or an exponent (Python floats) are left out of the model. A dictionary is
  an association list read with \<^const>\<open>map_of\<close>; its keys are strings, as in JSON.
\<close>

datatype pyval =
    PNone
  | PBool bool
  | PInt int
  | PStr string
  | PList "pyval list"
  | PDict "(string \<times> pyval) list"

text \<open>
  The exceptions the code can raise. None of them is caught anywhere in the program, so an
  operation that raises ends the run: results are \<open>error + 'a\<close>, with \<open>Inl\<close> the exception.
\<close>

datatype error =
    JSONDecodeError
  | AttributeError
  | TypeError
  | KeyError string
  | ValueError

text \<open>Sequencing: the second step runs on the value of the first unless that one raised.\<close>

definition propagate :: "error + 'a \<Rightarrow> ('a \<Rightarrow> error + 'b) \<Rightarrow> error + 'b" where
  "propagate r f = (case r of Inl e \<Rightarrow> Inl e | Inr v \<Rightarrow> f v)"

text \<open>Truth value testing, as \<^verbatim>\<open>if x\<close> and \<^verbatim>\<open>not x\<close> do it.\<close>

fun truthy :: "pyval \<Rightarrow> bool" where
  "truthy PNone = False"
| "truthy (PBool b) = b"
| "truthy (PInt n) = (n \<noteq> 0)"
| "truthy (PStr s) = (s \<noteq> [])"
| "truthy (PList xs) = (xs \<noteq> [])"
| "truthy (PDict kvs) = (kvs \<noteq> [])"

text \<open>
  \<^verbatim>\<open>v == k\<close> for an integer \<open>k\<close>: an integer equals it by value, \<^verbatim>\<open>True\<close> and
  \<^verbatim>\<open>False\<close> count as 1 and 0, every other value is different.
\<close>

fun eq_int :: "pyval \<Rightarrow> int \<Rightarrow> bool" where
  "eq_int (PInt n) k = (n = k)"
| "eq_int (PBool b) k = ((if b then 1 else 0) = k)"
| "eq_int _ k = False"

text \<open>\<^verbatim>\<open>v == s\<close> for a string \<open>s\<close>: only the same string is equal.\<close>

definition eq_str :: "pyval \<Rightarrow> string \<Rightarrow> bool" where
  "eq_str v s = (v = PStr s)"

text \<open>\<^verbatim>\<open>d[k]\<close> with a string key: a dictionary looks the key up, nothing else accepts it.\<close>

fun subscript :: "pyval \<Rightarrow> string \<Rightarrow> error + pyval" where
  "subscript (PDict kvs) k = (case map_of kvs k of None \<Rightarrow> Inl (KeyError k) | Some v \<Rightarrow> Inr v)"
| "subscript _ k = Inl TypeError"

text \<open>\<^verbatim>\<open>d.get(k, default)\<close>: only a dictionary has the method.\<close>

fun dict_get :: "pyval \<Rightarrow> string \<Rightarrow> pyval \<Rightarrow> error + pyval" where
  "dict_get (PDict kvs) k d = Inr (case map_of kvs k of None \<Rightarrow> d | Some v \<Rightarrow> v)"
| "dict_get _ k d = Inl AttributeError"

text \<open>
  \<^verbatim>\<open>for x in v\<close>: a list yields its elements, a dictionary its keys, a string its
  characters; the other values are not iterable.
\<close>

fun py_iter :: "pyval \<Rightarrow> error + pyval list" where
  "py_iter (PList xs) = Inr xs"
| "py_iter (PDict kvs) = Inr (map (\<lambda>kv. PStr (fst kv)) kvs)"
| "py_iter (PStr s) = Inr (map (\<lambda>c. PStr [c]) s)"
| "py_iter _ = Inl TypeError"

text \<open>\<^verbatim>\<open>v += 1\<close>: defined on integers and on booleans (as 0 and 1).\<close>

fun add_one :: "pyval \<Rightarrow> error + pyval" where
  "add_one (PInt n) = Inr (PInt (n + 1))"
| "add_one (PBool b) = Inr (PInt ((if b then 1 else 0) + 1))"
| "add_one _ = Inl TypeError"

subsection \<open>Naive datetimes\<close>

text \<open>
  \<^verbatim>\<open>datetime.now()\<close> is an input of the model: every operation that reads the clock takes
  the reading as an argument. Naive datetimes are ordered field by field.
\<close>

record datetime =
  year :: nat
  month :: nat
  day :: nat
  hour :: nat
  minute :: nat
  second :: nat
  microsecond :: nat

fun lex_less :: "nat list \<Rightarrow> nat list \<Rightarrow> bool" where
  "lex_less (a # as) (b # bs) = (a < b \<or> (a = b \<and> lex_less as bs))"
| "lex_less _ _ = False"

definition dt_fields :: "datetime \<Rightarrow> nat list" where
  "dt_fields d = [year d, month d, day d, hour d, minute d, second d, microsecond d]"

text \<open>\<^verbatim>\<open>a > b\<close> on two naive datetimes.\<close>

definition dt_greater :: "datetime \<Rightarrow> datetime \<Rightarrow> bool" where
  "dt_greater a b = lex_less (dt_fields b) (dt_fields a)"

subsection \<open>Formatting and parsing\<close>

definition digit_char :: "nat \<Rightarrow> char" where
  "digit_char n = char_of (48 + n mod 10)"

text \<open>The decimal numeral of \<open>n\<close>, zero-padded to \<open>w\<close> digits (digits beyond \<open>w\<close> are dropped).\<close>

fun pad :: "nat \<Rightarrow> nat \<Rightarrow> string" where
  "pad 0 n = []"
| "pad (Suc w) n = pad w (n div 10) @ [digit_char n]"

text \<open>
  \<^verbatim>\<open>strftime("%Y-%m-%d %H:%M:%S")\<close>. The year is written with four digits, which is what
  the C library prints for the years from 1000 on.
\<close>

definition strftime :: "datetime \<Rightarrow> string" where
  "strftime d =
     pad 4 (year d) @ ''-'' @ pad 2 (month d) @ ''-'' @ pad 2 (day d) @ '' '' @
     pad 2 (hour d) @ '':'' @ pad 2 (minute d) @ '':'' @ pad 2 (second d)"

definition is_digit :: "char \<Rightarrow> bool" where
  "is_digit c = (c \<in> set ''0123456789'')"

definition digit_val :: "char \<Rightarrow> nat" where
  "digit_val c = of_char c - 48"

definition leap :: "nat \<Rightarrow> bool" where
  "leap y = (y mod 4 = 0 \<and> (y mod 100 \<noteq> 0 \<or> y mod 400 = 0))"

definition days_in_month :: "nat \<Rightarrow> nat \<Rightarrow> nat" where
  "days_in_month y m =
     (if m = 2 then (if leap y then 29 else 28)
      else if m \<in> {4, 6, 9, 11} then 30 else 31)"

text \<open>
  The month of \<^verbatim>\<open>%m\<close>, followed by the dash: the library's pattern is
  \<^verbatim>\<open>1[0-2]|0[1-9]|[1-9]\<close>. The result is the month and the rest of the text.
\<close>

fun parse_month :: "string \<Rightarrow> (nat \<times> string) option" where
  "parse_month (a # b # c # rest) =
     (if c = CHR ''-'' \<and> ((a = CHR ''1'' \<and> b \<in> set ''012'') \<or> (a = CHR ''0'' \<and> b \<in> set ''123456789''))
      then Some (10 * digit_val a + digit_val b, rest)
      else if b = CHR ''-'' \<and> a \<in> set ''123456789'' then Some (digit_val a, c # rest)
      else None)"
| "parse_month [a, b] =
     (if b = CHR ''-'' \<and> a \<in> set ''123456789'' then Some (digit_val a, []) else None)"
| "parse_month _ = None"

text \<open>
  The day of \<^verbatim>\<open>%d\<close>, which must end the text: the library's pattern is
  \<^verbatim>\<open>3[0-1]|[1-2]\d|0[1-9]|[1-9]| [1-9]\<close>, and text left over after the match is an error.
\<close>

fun parse_day :: "string \<Rightarrow> nat option" where
  "parse_day [a, b] =
     (if (a = CHR ''3'' \<and> b \<in> set ''01'') \<or> (a \<in> set ''12'' \<and> is_digit b)
         \<or> (a = CHR ''0'' \<and> b \<in> set ''123456789'')
      then Some (10 * digit_val a + digit_val b)
      else if a = CHR '' '' \<and> b \<in> set ''123456789'' then Some (digit_val b)
      else None)"
| "parse_day [a] = (if a \<in> set ''123456789'' then Some (digit_val a) else None)"
| "parse_day _ = None"

text \<open>
  \<^verbatim>\<open>datetime.strptime(s, "%Y-%m-%d")\<close> on a string: four digits of year, the month, the
  day, then the date is built, which refuses the year 0 and a day the month does not have.
  Every failure is a \<^verbatim>\<open>ValueError\<close>. The result is midnight at the start of that day.
  A digit is one of the ten ASCII digits.
\<close>

fun strptime :: "string \<Rightarrow> error + datetime" where
  "strptime (y1 # y2 # y3 # y4 # dash # rest) =
     (if is_digit y1 \<and> is_digit y2 \<and> is_digit y3 \<and> is_digit y4 \<and> dash = CHR ''-'' then
        (case parse_month rest of
           None \<Rightarrow> Inl ValueError
         | Some (m, rest') \<Rightarrow>
            (case parse_day rest' of
               None \<Rightarrow> Inl ValueError
             | Some d \<Rightarrow>
                (let y = 1000 * digit_val y1 + 100 * digit_val y2 + 10 * digit_val y3 + digit_val y4
                 in if 1 \<le> y \<and> d \<le> days_in_month y m
                    then Inr \<lparr>year = y, month = m, day = d, hour = 0, minute = 0,
                              second = 0, microsecond = 0\<rparr>
                    else Inl ValueError)))
      else Inl ValueError)"
| "strptime _ = Inl ValueError"

section \<open>Task\<close>

record Task =
  task_id :: pyval
  title :: pyval
  description :: pyval
  priority :: pyval
  category :: pyval
  completed :: pyval
  created_at :: pyval
  deadline :: pyval
  completed_at :: pyval

text \<open>\<^verbatim>\<open>Task.__init__\<close>; \<open>now\<close> is the clock reading taken for \<^verbatim>\<open>created_at\<close>.\<close>

definition Task_init :: "datetime \<Rightarrow> pyval \<Rightarrow> pyval \<Rightarrow> pyval \<Rightarrow> pyval \<Rightarrow> pyval \<Rightarrow> Task" where
  "Task_init now ttl descr prio cat dl =
     \<lparr>task_id = PNone, title = ttl, description = descr, priority = prio, category = cat,
      completed = PBool False, created_at = PStr (strftime now), deadline = dl,
      completed_at = PNone\<rparr>"

definition to_dict :: "Task \<Rightarrow> pyval" where
  "to_dict t = PDict
     [(''id'', task_id t), (''title'', title t), (''description'', description t),
      (''priority'', priority t), (''category'', category t), (''completed'', completed t),
      (''created_at'', created_at t), (''deadline'', deadline t),
      (''completed_at'', completed_at t)]"

text \<open>
  \<^verbatim>\<open>Task.from_dict\<close>: the five constructor arguments are read first, then the constructor
  runs (reading the clock), then the four remaining keys overwrite what it set. The first
  key that is missing raises.
\<close>

definition from_dict :: "datetime \<Rightarrow> pyval \<Rightarrow> error + Task" where
  "from_dict now data =
     propagate (subscript data ''title'') (\<lambda>ttl.
     propagate (subscript data ''description'') (\<lambda>descr.
     propagate (subscript data ''priority'') (\<lambda>prio.
     propagate (subscript data ''category'') (\<lambda>cat.
     propagate (subscript data ''deadline'') (\<lambda>dl.
     let task = Task_init now ttl descr prio cat dl in
     propagate (subscript data ''id'') (\<lambda>i.
     propagate (subscript data ''completed'') (\<lambda>c.
     propagate (subscript data ''created_at'') (\<lambda>ca.
     propagate (subscript data ''completed_at'') (\<lambda>co.
     Inr (task\<lparr>task_id := i, completed := c, created_at := ca,
               completed_at := co\<rparr>))))))))))"

definition mark_complete :: "datetime \<Rightarrow> Task \<Rightarrow> Task" where
  "mark_complete now t = t\<lparr>completed := PBool True, completed_at := PStr (strftime now)\<rparr>"

text \<open>
  \<^verbatim>\<open>Task.is_overdue\<close>: the deadline is parsed only when it is truthy and the task is not
  completed; \<^verbatim>\<open>strptime\<close> refuses an argument that is not a string with a
  \<^verbatim>\<open>TypeError\<close>.
\<close>

definition is_overdue :: "datetime \<Rightarrow> Task \<Rightarrow> error + bool" where
  "is_overdue now t =
     (if truthy (deadline t) \<and> \<not> truthy (completed t) then
        (case deadline t of
           PStr s \<Rightarrow> (case strptime s of
                        Inl e \<Rightarrow> Inl e
                      | Inr deadline_date \<Rightarrow> Inr (dt_greater now deadline_date))
         | _ \<Rightarrow> Inl TypeError)
      else Inr False)"

section \<open>TaskManager\<close>

text \<open>
  The file system maps a path to what \<^verbatim>\<open>json.load\<close> makes of the file there: the
  parsed document, or \<open>NotJSON\<close> when the text is not JSON. \<^verbatim>\<open>json.dump\<close> followed by
  \<^verbatim>\<open>json.load\<close> gives a value of \<^typ>\<open>pyval\<close> back unchanged, so a written file holds
  the value written. Failures of the operating system (permissions, a full disk) are not
  modelled.
\<close>

datatype content = Document pyval | NotJSON

type_synonym files = "string \<Rightarrow> content option"

text \<open>
  The manager holds its tasks by value: the program builds a fresh \<^verbatim>\<open>Task\<close> for every
  \<^verbatim>\<open>add_task\<close> and for every loaded record, and hands no task to anyone who changes it,
  so no object is in the list twice and each one is identified with its position.
\<close>

record TaskManager =
  filename :: string
  tasks :: "Task list"
  next_id :: pyval

definition save_tasks :: "TaskManager \<Rightarrow> files \<Rightarrow> files" where
  "save_tasks m fs =
     (let data = PDict [(''next_id'', next_id m), (''tasks'', PList (map to_dict (tasks m)))]
      in fs(filename m \<mapsto> Document data))"

text \<open>A list comprehension whose element expression may raise: the first exception ends it.\<close>

fun collect :: "('a \<Rightarrow> error + 'b) \<Rightarrow> 'a list \<Rightarrow> error + 'b list" where
  "collect f [] = Inr []"
| "collect f (x # xs) = propagate (f x) (\<lambda>y. propagate (collect f xs) (\<lambda>ys. Inr (y # ys)))"

text \<open>A list comprehension whose condition may raise.\<close>

fun select :: "('a \<Rightarrow> error + bool) \<Rightarrow> 'a list \<Rightarrow> error + 'a list" where
  "select p [] = Inr []"
| "select p (x # xs) =
     propagate (p x) (\<lambda>b. propagate (select p xs) (\<lambda>ys. Inr (if b then x # ys else ys)))"

definition load_tasks :: "datetime \<Rightarrow> TaskManager \<Rightarrow> files \<Rightarrow> error + TaskManager" where
  "load_tasks now m fs =
     (case fs (filename m) of
        None \<Rightarrow> Inr m
      | Some NotJSON \<Rightarrow> Inl JSONDecodeError
      | Some (Document data) \<Rightarrow>
          propagate (dict_get data ''next_id'' (PInt 1)) (\<lambda>n.
          propagate (dict_get data ''tasks'' (PList [])) (\<lambda>recs.
          propagate (py_iter recs) (\<lambda>items.
          propagate (collect (from_dict now) items) (\<lambda>ts.
          Inr (m\<lparr>next_id := n, tasks := ts\<rparr>))))))"

text \<open>\<^verbatim>\<open>TaskManager.__init__\<close>.\<close>

definition TaskManager_init :: "datetime \<Rightarrow> string \<Rightarrow> files \<Rightarrow> error + TaskManager" where
  "TaskManager_init now fname fs =
     load_tasks now \<lparr>filename = fname, tasks = [], next_id = PInt 1\<rparr> fs"

text \<open>
  \<^verbatim>\<open>add_task\<close> returns the new manager, the new file system and the identifier. When the
  counter cannot be incremented the exception ends the run.
\<close>

definition add_task :: "TaskManager \<Rightarrow> files \<Rightarrow> Task \<Rightarrow> error + ((TaskManager \<times> files) \<times> pyval)" where
  "add_task m fs task =
     (let task' = task\<lparr>task_id := next_id m\<rparr>;
          m1 = m\<lparr>tasks := tasks m @ [task']\<rparr>
      in propagate (add_one (next_id m1)) (\<lambda>n.
           let m2 = m1\<lparr>next_id := n\<rparr>
           in Inr ((m2, save_tasks m2 fs), task_id task')))"

definition get_task :: "TaskManager \<Rightarrow> int \<Rightarrow> Task option" where
  "get_task m k = find (\<lambda>t. eq_int (task_id t) k) (tasks m)"

text \<open>
  \<^verbatim>\<open>delete_task\<close>: a \<^verbatim>\<open>Task\<close> object is always truthy, so the test is whether one was
  found. \<^verbatim>\<open>list.remove\<close> takes out the first element equal to the found one;
  \<^verbatim>\<open>Task\<close> defines no equality, so that is the found object itself, the first of the list
  with the identifier. \<^const>\<open>remove1\<close> compares by value and removes at the same position:
  the elements before the found one do not have the identifier, so none of them equals it.
\<close>

definition delete_task :: "TaskManager \<Rightarrow> files \<Rightarrow> int \<Rightarrow> (TaskManager \<times> files) \<times> bool" where
  "delete_task m fs k =
     (case get_task m k of
        Some task \<Rightarrow>
          (let m' = m\<lparr>tasks := remove1 task (tasks m)\<rparr>
           in ((m', save_tasks m' fs), True))
      | None \<Rightarrow> ((m, fs), False))"

text \<open>
  The mutation of the object that \<^verbatim>\<open>get_task\<close> returned, on the list that holds it: the
  first element with the identifier is changed in place.
\<close>

fun mutate_first :: "('a \<Rightarrow> bool) \<Rightarrow> ('a \<Rightarrow> 'a) \<Rightarrow> 'a list \<Rightarrow> 'a list" where
  "mutate_first p f [] = []"
| "mutate_first p f (x # xs) = (if p x then f x # xs else x # mutate_first p f xs)"

definition complete_task :: "datetime \<Rightarrow> TaskManager \<Rightarrow> files \<Rightarrow> int \<Rightarrow> (TaskManager \<times> files) \<times> bool" where
  "complete_task now m fs k =
     (case get_task m k of
        Some task \<Rightarrow>
          (let m' = m\<lparr>tasks := mutate_first (\<lambda>t. eq_int (task_id t) k) (mark_complete now) (tasks m)\<rparr>
           in ((m', save_tasks m' fs), True))
      | None \<Rightarrow> ((m, fs), False))"

definition get_tasks_by_category :: "TaskManager \<Rightarrow> string \<Rightarrow> Task list" where
  "get_tasks_by_category m c = filter (\<lambda>t. eq_str (category t) c) (tasks m)"

definition get_tasks_by_priority :: "TaskManager \<Rightarrow> string \<Rightarrow> Task list" where
  "get_tasks_by_priority m p = filter (\<lambda>t. eq_str (priority t) p) (tasks m)"

definition get_pending_tasks :: "TaskManager \<Rightarrow> Task list" where
  "get_pending_tasks m = filter (\<lambda>t. \<not> truthy (completed t)) (tasks m)"

definition get_completed_tasks :: "TaskManager \<Rightarrow> Task list" where
  "get_completed_tasks m = filter (\<lambda>t. truthy (completed t)) (tasks m)"

text \<open>\<^verbatim>\<open>get_overdue_tasks\<close>, with one clock reading for the whole comprehension.\<close>

definition get_overdue_tasks :: "datetime \<Rightarrow> TaskManager \<Rightarrow> error + Task list" where
  "get_overdue_tasks now m = select (is_overdue now) (tasks m)"

text \<open>
  A run of the store: calls of \<^verbatim>\<open>add_task\<close> and \<^verbatim>\<open>delete_task\<close> in any order. The
  result holds the final state and the identifiers that the calls of \<^verbatim>\<open>add_task\<close>
  returned, in the order of the calls.
\<close>

datatype call = Add Task | Delete int

fun run :: "call list \<Rightarrow> TaskManager \<Rightarrow> files \<Rightarrow> error + ((TaskManager \<times> files) \<times> pyval list)" where
  "run [] m fs = Inr ((m, fs), [])"
| "run (Add task # cs) m fs =
     propagate (add_task m fs task) (\<lambda>((m', fs'), i).
     propagate (run cs m' fs') (\<lambda>(st, ids). Inr (st, i # ids)))"
| "run (Delete k # cs) m fs =
     (let ((m', fs'), found) = delete_task m fs k in run cs m' fs')"



subsection \<open>Concrete inputs\<close>

definition morning :: datetime where
  "morning = \<lparr>year = 2024, month = 1, day = 15, hour = 10, minute = 0, second = 0,
              microsecond = 0\<rparr>"

definition evening :: datetime where
  "evening = \<lparr>year = 2024, month = 1, day = 15, hour = 18, minute = 30, second = 5,
              microsecond = 250\<rparr>"

definition next_day :: datetime where
  "next_day = \<lparr>year = 2024, month = 1, day = 16, hour = 0, minute = 0, second = 1,
               microsecond = 0\<rparr>"

definition milk :: Task where
  "milk = Task_init morning (PStr ''Buy milk'') (PStr []) (PStr ''high'') (PStr ''general'')
            (PStr ''2024-01-15'')"

definition report :: Task where
  "report = Task_init morning (PStr ''Write report'') (PStr ''quarterly'') (PStr ''low'')
              (PStr ''work'') PNone"

definition garbled :: Task where
  "garbled = Task_init morning (PStr ''Call back'') (PStr []) (PStr ''medium'') (PStr ''work'')
               (PStr ''next week'')"

definition fresh_manager :: TaskManager where
  "fresh_manager = \<lparr>filename = ''tasks.json'', tasks = [], next_id = PInt 1\<rparr>"

definition office :: TaskManager where
  "office = \<lparr>filename = ''tasks.json'',
              tasks = [milk\<lparr>task_id := PInt 1\<rparr>,
                       mark_complete evening (report\<lparr>task_id := PInt 2\<rparr>),
                       garbled\<lparr>task_id := PInt 4\<rparr>],
              next_id = PInt 5\<rparr>"

text \<open>File systems: no file, a file that is not JSON, and three JSON documents.\<close>

definition no_disk :: files where
  "no_disk = Map.empty"



definition odd_disk :: files where
  "odd_disk = [''tasks.json'' \<mapsto> Document (PDict [(''next_id'', PStr ''abc'')])]"


section \<open>Auxiliary facts\<close>

lemma add_task_int:
  "next_id m = PInt n \<Longrightarrow>
   add_task m fs task =
     Inr ((m\<lparr>tasks := tasks m @ [task\<lparr>task_id := PInt n\<rparr>], next_id := PInt (n + 1)\<rparr>,
           save_tasks (m\<lparr>tasks := tasks m @ [task\<lparr>task_id := PInt n\<rparr>], next_id := PInt (n + 1)\<rparr>) fs),
          PInt n)"
  by (simp add: add_task_def propagate_def Let_def)

lemma delete_task_next_id: "next_id (fst (fst (delete_task m fs k))) = next_id m"
  by (simp add: delete_task_def Let_def split: option.splits)

text \<open>
  The identifiers handed out by a run that starts with the counter at \<open>n\<close>: by induction on
  the calls, for every starting state, since each call changes it.
\<close>

lemma run_ids:
  "next_id m = PInt n \<Longrightarrow>
   \<exists>m' fs' ks. run cs m fs = Inr ((m', fs'), map PInt ks) \<and>
     sorted_wrt (<) ks \<and> distinct ks \<and> (\<forall>k\<in>set ks. n \<le> k \<and> k < n + int (length ks)) \<and>
     next_id m' = PInt (n + int (length ks))"
proof (induction cs arbitrary: m fs n)
  case Nil
  then show ?case by simp
next
  case (Cons c cs)
  show ?case
  proof (cases c)
    case (Add task)
    let ?m1 = "m\<lparr>tasks := tasks m @ [task\<lparr>task_id := PInt n\<rparr>], next_id := PInt (n + 1)\<rparr>"
    have step: "add_task m fs task = Inr ((?m1, save_tasks ?m1 fs), PInt n)"
      using Cons.prems by (rule add_task_int)
    have "next_id ?m1 = PInt (n + 1)" by simp
    from Cons.IH [OF this, of "save_tasks ?m1 fs"]
    obtain m' fs' ks where r: "run cs ?m1 (save_tasks ?m1 fs) = Inr ((m', fs'), map PInt ks)"
      and s: "sorted_wrt (<) ks" and d: "distinct ks"
      and b: "\<forall>k\<in>set ks. n + 1 \<le> k \<and> k < n + 1 + int (length ks)"
      and nx: "next_id m' = PInt (n + 1 + int (length ks))"
      by blast
    have "run (c # cs) m fs = Inr ((m', fs'), map PInt (n # ks))"
      using Add step r by (simp add: propagate_def)
    moreover have "sorted_wrt (<) (n # ks)" using s b by auto
    moreover have "distinct (n # ks)" using d b by auto
    moreover have "\<forall>k\<in>set (n # ks). n \<le> k \<and> k < n + int (length (n # ks))" using b by auto
    moreover have "next_id m' = PInt (n + int (length (n # ks)))" using nx by (simp add: add.assoc)
    ultimately show ?thesis by blast
  next
    case (Delete k)
    obtain m1 fs1 found where dl: "delete_task m fs k = ((m1, fs1), found)"
      by (metis surj_pair)
    have "next_id m1 = PInt n"
      using delete_task_next_id [of m fs k] dl Cons.prems by simp
    from Cons.IH [OF this, of fs1] show ?thesis
      using Delete dl by simp
  qed
qed

lemma from_dict_to_dict: "from_dict now (to_dict t) = Inr t"
  by (simp add: from_dict_def to_dict_def propagate_def Task_init_def)

lemma collect_from_dict: "collect (from_dict now) (map to_dict ts) = Inr ts"
  by (induction ts) (simp_all add: from_dict_to_dict propagate_def)

lemma find_mutate_first:
  "(\<And>x. p (f x) = p x) \<Longrightarrow> find p (mutate_first p f xs) = map_option f (find p xs)"
  by (induction xs) simp_all

lemma count_list_filter:
  "count_list (filter p xs) x = (if p x then count_list xs x else 0)"
  by (induction xs) auto

lemma find_None_all: "find p xs = None \<longleftrightarrow> (\<forall>x\<in>set xs. \<not> p x)"
  by (induction xs) auto

lemma find_remove1:
  "find p xs = Some x \<Longrightarrow>
   \<exists>pre post. xs = pre @ x # post \<and> (\<forall>y\<in>set pre. \<not> p y) \<and> p x \<and> remove1 x xs = pre @ post"
proof (induction xs)
  case Nil
  then show ?case by simp
next
  case (Cons a xs)
  show ?case
  proof (cases "p a")
    case True
    with Cons.prems have "a = x" by simp
    with True show ?thesis by (intro exI [of _ "[]"] exI [of _ xs]) simp
  next
    case False
    with Cons.prems have f: "find p xs = Some x" by simp
    from Cons.IH [OF f] obtain pre post where
      h: "xs = pre @ x # post" "\<forall>y\<in>set pre. \<not> p y" "p x" "remove1 x xs = pre @ post"
      by blast
    from h(3) False have "a \<noteq> x" by auto
    with h False show ?thesis
      by (intro exI [of _ "a # pre"] exI [of _ post]) simp
  qed
qed




lemma select_raises:
  "select p xs = Inl e \<Longrightarrow> \<exists>x\<in>set xs. p x = Inl e"
proof (induction xs)
  case Nil
  then show ?case by simp
next
  case (Cons a xs)
  show ?case
  proof (cases "p a")
    case (Inl e')
    with Cons.prems show ?thesis by (simp add: propagate_def)
  next
    case (Inr b)
    with Cons.prems have "select p xs = Inl e"
      by (cases "select p xs") (simp_all add: propagate_def)
    with Cons.IH show ?thesis by auto
  qed
qed








lemma get_task_None: "get_task m k = None \<longleftrightarrow> (\<forall>t\<in>set (tasks m). \<not> eq_int (task_id t) k)"
  by (simp add: get_task_def find_None_all)

lemma delete_absent:
  "\<forall>t\<in>set (tasks m). \<not> eq_int (task_id t) k \<Longrightarrow> delete_task m fs k = ((m, fs), False)"
proof -
  assume "\<forall>t\<in>set (tasks m). \<not> eq_int (task_id t) k"
  then have "get_task m k = None" by (simp add: get_task_None)
  then show ?thesis by (simp add: delete_task_def)
qed

lemma delete_present:
  assumes "\<exists>t\<in>set (tasks m). eq_int (task_id t) k"
  shows "\<exists>pre t post. tasks m = pre @ t # post \<and> (\<forall>u\<in>set pre. \<not> eq_int (task_id u) k) \<and>
           eq_int (task_id t) k \<and>
           delete_task m fs k =
             ((m\<lparr>tasks := pre @ post\<rparr>, save_tasks (m\<lparr>tasks := pre @ post\<rparr>) fs), True)"
proof -
  from assms have "get_task m k \<noteq> None" by (simp add: get_task_None)
  then obtain t where g: "get_task m k = Some t" by auto
  then have "find (\<lambda>t. eq_int (task_id t) k) (tasks m) = Some t" by (simp add: get_task_def)
  from find_remove1 [OF this] obtain pre post where
    h: "tasks m = pre @ t # post" "\<forall>u\<in>set pre. \<not> eq_int (task_id u) k" "eq_int (task_id t) k"
       "remove1 t (tasks m) = pre @ post"
    by blast
  have "delete_task m fs k =
      ((m\<lparr>tasks := pre @ post\<rparr>, save_tasks (m\<lparr>tasks := pre @ post\<rparr>) fs), True)"
    by (simp add: delete_task_def g h(4) Let_def)
  with h(1,2,3) show ?thesis by blast
qed

lemma office_ids:
  "(\<forall>t\<in>set (tasks office). \<not> eq_int (task_id t) 99) \<and> (\<exists>t\<in>set (tasks office). eq_int (task_id t) 2)"
  by (simp add: office_def mark_complete_def)

lemma get_task_mutate:
  "get_task (m\<lparr>tasks := mutate_first (\<lambda>t. eq_int (task_id t) k) (mark_complete now) (tasks m)\<rparr>) k
     = map_option (mark_complete now) (get_task m k)"
  by (simp add: get_task_def find_mutate_first mark_complete_def)

lemma complete_task_found:
  assumes g: "get_task m k = Some t"
  shows "\<exists>m' fs'. complete_task now m fs k = ((m', fs'), True) \<and>
     get_task m' k = Some (mark_complete now t) \<and> fs' = save_tasks m' fs"
proof -
  let ?m' = "m\<lparr>tasks := mutate_first (\<lambda>t. eq_int (task_id t) k) (mark_complete now) (tasks m)\<rparr>"
  have "complete_task now m fs k = ((?m', save_tasks ?m' fs), True)"
    by (simp add: complete_task_def g Let_def)
  moreover have "get_task ?m' k = Some (mark_complete now t)"
    by (simp add: get_task_mutate g)
  ultimately show ?thesis by simp
qed

lemma office_milk: "get_task office 1 = Some (milk\<lparr>task_id := PInt 1\<rparr>)"
  by (simp add: office_def get_task_def)

lemma stamps: "strftime evening = ''2024-01-15 18:30:05'' \<and> strftime next_day = ''2024-01-16 00:00:01''"
  by code_simp


lemma office_typed: "\<forall>t\<in>set (tasks office). \<exists>b. completed t = PBool b"
  by (auto simp: office_def mark_complete_def milk_def report_def garbled_def Task_init_def)

lemma views_office:
  "get_tasks_by_category office ''work''
     = [mark_complete evening (report\<lparr>task_id := PInt 2\<rparr>), garbled\<lparr>task_id := PInt 4\<rparr>] \<and>
   get_tasks_by_priority office ''high'' = [milk\<lparr>task_id := PInt 1\<rparr>] \<and>
   get_pending_tasks office = [milk\<lparr>task_id := PInt 1\<rparr>, garbled\<lparr>task_id := PInt 4\<rparr>] \<and>
   get_completed_tasks office = [mark_complete evening (report\<lparr>task_id := PInt 2\<rparr>)]"
  by (simp add: get_tasks_by_category_def get_tasks_by_priority_def get_pending_tasks_def
      get_completed_tasks_def eq_str_def office_def mark_complete_def milk_def report_def
      garbled_def Task_init_def)

lemma garbled_raises:
  "is_overdue morning garbled = Inl ValueError \<and>
   truthy (completed (mark_complete evening garbled)) \<and>
   get_overdue_tasks morning office = Inl ValueError"
  by (simp add: is_overdue_def garbled_def milk_def report_def Task_init_def mark_complete_def
      is_digit_def get_overdue_tasks_def office_def propagate_def digit_val_def
      days_in_month_def leap_def dt_greater_def dt_fields_def morning_def)


section \<open>The claims\<close>

text \<open>
  C1. For every sequence of \<^verbatim>\<open>add_task\<close> calls on one manager, interleaved in any way with
  \<^verbatim>\<open>delete_task\<close> calls, the identifiers returned by \<^verbatim>\<open>add_task\<close> are strictly
  increasing and no identifier is handed out twice, also after a task with a lower
  identifier was deleted. The manager's counter is an integer \<open>n\<close> at the start; the
  identifiers then lie between \<open>n\<close> and the final counter, which is above all of them.
\<close>

theorem add_ids_strictly_increasing:
  assumes "next_id m = PInt n"
  shows "\<exists>m' fs' ks. run cs m fs = Inr ((m', fs'), map PInt ks) \<and>
           sorted_wrt (<) ks \<and> distinct ks \<and>
           (\<forall>k\<in>set ks. n \<le> k \<and> k < n + int (length ks)) \<and>
           next_id m' = PInt (n + int (length ks))"
  using assms by (rule run_ids)

theorem add_ids_strictly_increasing_witness:
  "\<exists>m' fs' ks. run [Add milk, Add report, Delete 1, Add garbled, Delete 7] fresh_manager Map.empty
                  = Inr ((m', fs'), map PInt ks) \<and>
     sorted_wrt (<) ks \<and> distinct ks \<and>
     (\<forall>k\<in>set ks. 1 \<le> k \<and> k < 1 + int (length ks)) \<and>
     next_id m' = PInt (1 + int (length ks))"
proof -
  have h: "next_id fresh_manager = PInt 1" by (simp add: fresh_manager_def)
  show ?thesis
    using add_ids_strictly_increasing [OF h] by blast
qed

text \<open>
  C2. The claim is that a pending task whose deadline is the current date is not overdue.
  \<^verbatim>\<open>is_overdue\<close> compares the clock reading, time of day included, with midnight at the
  start of the deadline date: at 10:00 on 2024-01-15 a pending task due 2024-01-15 is
  reported overdue.
\<close>

theorem is_overdue_on_deadline_day:
  "is_overdue morning milk = Inr True"
  by (simp add: morning_def milk_def Task_init_def is_overdue_def is_digit_def digit_val_def
      days_in_month_def leap_def dt_greater_def dt_fields_def)

text \<open>
  C3. Deserializing the serialized form of a task gives the task back, with every field as
  it was (an unset field is \<^const>\<open>PNone\<close>, not a string); the clock reading taken by the
  constructor inside \<^verbatim>\<open>from_dict\<close> leaves no trace. Saving a manager and building a new
  one from the same path gives a manager with the same tasks in the same order and the
  same counter.
\<close>

theorem roundtrip:
  "from_dict now (to_dict t) = Inr t \<and>
   TaskManager_init now (filename m) (save_tasks m fs) = Inr m"
  by (simp add: from_dict_to_dict TaskManager_init_def load_tasks_def save_tasks_def
      propagate_def collect_from_dict)

text \<open>
  C4. A task built by the constructor and then marked complete any number of times (none
  included, and so after every single call) has \<^verbatim>\<open>completed\<close> equal to \<^verbatim>\<open>True\<close> exactly
  when \<^verbatim>\<open>completed_at\<close> is set.
\<close>

theorem completed_iff_completed_at:
  "(completed (foldl (\<lambda>t now. mark_complete now t) (Task_init now0 ttl descr prio cat dl) nows)
      = PBool True)
   = (completed_at (foldl (\<lambda>t now. mark_complete now t) (Task_init now0 ttl descr prio cat dl) nows)
      \<noteq> PNone)"
proof -
  have "\<And>t. (completed t = PBool True) = (completed_at t \<noteq> PNone) \<Longrightarrow>
    (completed (foldl (\<lambda>t now. mark_complete now t) t nows) = PBool True)
    = (completed_at (foldl (\<lambda>t now. mark_complete now t) t nows) \<noteq> PNone)"
    by (induction nows) (simp_all add: mark_complete_def)
  then show ?thesis by (simp add: Task_init_def)
qed





text \<open>
  C6. When no task of the manager has the identifier, \<^verbatim>\<open>delete_task\<close> returns
  \<^verbatim>\<open>False\<close> and the manager and the file system are what they were: nothing is written.
  When some task has it, the first such task is taken out of the list, the rest keeps its
  order, the new state is saved and the result is \<^verbatim>\<open>True\<close>.
\<close>

theorem delete_absent_or_present:
  "((\<forall>t\<in>set (tasks m). \<not> eq_int (task_id t) k) \<longrightarrow> delete_task m fs k = ((m, fs), False)) \<and>
   ((\<exists>t\<in>set (tasks m). eq_int (task_id t) k) \<longrightarrow>
      (\<exists>pre t post. tasks m = pre @ t # post \<and> (\<forall>u\<in>set pre. \<not> eq_int (task_id u) k) \<and>
         eq_int (task_id t) k \<and>
         delete_task m fs k =
           ((m\<lparr>tasks := pre @ post\<rparr>, save_tasks (m\<lparr>tasks := pre @ post\<rparr>) fs), True)))"
  using delete_absent [of m k fs] delete_present [of m k fs] by blast

theorem delete_absent_or_present_witness:
  "delete_task office odd_disk 99 = ((office, odd_disk), False) \<and>
   (\<exists>pre t post. tasks office = pre @ t # post \<and> (\<forall>u\<in>set pre. \<not> eq_int (task_id u) 2) \<and>
      eq_int (task_id t) 2 \<and>
      delete_task office odd_disk 2 =
        ((office\<lparr>tasks := pre @ post\<rparr>, save_tasks (office\<lparr>tasks := pre @ post\<rparr>) odd_disk), True))"
  using office_ids delete_absent_or_present [of office 99 odd_disk]
    delete_absent_or_present [of office 2 odd_disk]
  by blast

text \<open>
  C7. Each view is a subsequence of the manager's list, so the order of insertion is kept,
  and holds every task of the list that meets the condition as often as the list does, and
  no other: the category equal to the given name, the priority equal to the given value,
  \<^verbatim>\<open>completed\<close> equal to \<^verbatim>\<open>False\<close>, \<^verbatim>\<open>completed\<close> equal to \<^verbatim>\<open>True\<close>. The last two
  test the truth value of the field, which is the comparison with \<^verbatim>\<open>False\<close> and
  \<^verbatim>\<open>True\<close> when the field is a boolean, as the data model has it. A view is a function
  of the manager alone and returns a list: it changes neither the manager nor a file.
\<close>

theorem filter_views:
  "subseq (get_tasks_by_category m c) (tasks m) \<and>
   (\<forall>t. count_list (get_tasks_by_category m c) t
          = (if category t = PStr c then count_list (tasks m) t else 0)) \<and>
   subseq (get_tasks_by_priority m p) (tasks m) \<and>
   (\<forall>t. count_list (get_tasks_by_priority m p) t
          = (if priority t = PStr p then count_list (tasks m) t else 0)) \<and>
   subseq (get_pending_tasks m) (tasks m) \<and>
   subseq (get_completed_tasks m) (tasks m) \<and>
   ((\<forall>t\<in>set (tasks m). \<exists>b. completed t = PBool b) \<longrightarrow>
      (\<forall>t. count_list (get_pending_tasks m) t
             = (if completed t = PBool False then count_list (tasks m) t else 0)) \<and>
      (\<forall>t. count_list (get_completed_tasks m) t
             = (if completed t = PBool True then count_list (tasks m) t else 0)))"
proof -
  have typed: "count_list (tasks m) t = 0 \<or> (\<exists>b. completed t = PBool b)"
    if "\<forall>t\<in>set (tasks m). \<exists>b. completed t = PBool b" for t
    using that by (cases "t \<in> set (tasks m)") (simp_all add: count_list_0_iff)
  have pend: "count_list (get_pending_tasks m) t
      = (if completed t = PBool False then count_list (tasks m) t else 0)"
    if "\<forall>t\<in>set (tasks m). \<exists>b. completed t = PBool b" for t
    using typed [OF that, of t] by (auto simp: get_pending_tasks_def count_list_filter)
  have comp: "count_list (get_completed_tasks m) t
      = (if completed t = PBool True then count_list (tasks m) t else 0)"
    if "\<forall>t\<in>set (tasks m). \<exists>b. completed t = PBool b" for t
    using typed [OF that, of t] by (auto simp: get_completed_tasks_def count_list_filter)
  show ?thesis
    using pend comp
    by (simp add: get_tasks_by_category_def get_tasks_by_priority_def get_pending_tasks_def
        get_completed_tasks_def count_list_filter eq_str_def)
qed

theorem filter_views_witness:
  "(\<forall>t. count_list (get_pending_tasks office) t
          = (if completed t = PBool False then count_list (tasks office) t else 0)) \<and>
   (\<forall>t. count_list (get_completed_tasks office) t
          = (if completed t = PBool True then count_list (tasks office) t else 0)) \<and>
   get_pending_tasks office = [milk\<lparr>task_id := PInt 1\<rparr>, garbled\<lparr>task_id := PInt 4\<rparr>] \<and>
   get_completed_tasks office = [mark_complete evening (report\<lparr>task_id := PInt 2\<rparr>)]"
  using office_typed views_office filter_views [of office "''work''" "''high''"] by blast

text \<open>
  C8. Completing the same task twice: both calls find the task and return \<^verbatim>\<open>True\<close>;
  after the first one the task is completed with the first call's time stamp, after the
  second one it is still completed and \<^verbatim>\<open>completed_at\<close> is the second call's time stamp,
  whatever the first one was. The state after each call is saved.
\<close>

theorem complete_twice:
  assumes "get_task m k = Some t"
  shows "\<exists>m1 fs1 m2 fs2.
           complete_task now1 m fs k = ((m1, fs1), True) \<and>
           get_task m1 k = Some (t\<lparr>completed := PBool True, completed_at := PStr (strftime now1)\<rparr>) \<and>
           complete_task now2 m1 fs1 k = ((m2, fs2), True) \<and>
           get_task m2 k = Some (t\<lparr>completed := PBool True, completed_at := PStr (strftime now2)\<rparr>) \<and>
           fs2 = save_tasks m2 fs1"
proof -
  from complete_task_found [OF assms, of now1 fs] obtain m1 fs1 where
    a: "complete_task now1 m fs k = ((m1, fs1), True)"
       "get_task m1 k = Some (mark_complete now1 t)"
    by blast
  from complete_task_found [OF a(2), of now2 fs1] obtain m2 fs2 where
    b: "complete_task now2 m1 fs1 k = ((m2, fs2), True)"
       "get_task m2 k = Some (mark_complete now2 (mark_complete now1 t))"
       "fs2 = save_tasks m2 fs1"
    by blast
  have c: "mark_complete now1 t = t\<lparr>completed := PBool True, completed_at := PStr (strftime now1)\<rparr>"
    by (simp add: mark_complete_def)
  have d: "mark_complete now2 (mark_complete now1 t)
      = t\<lparr>completed := PBool True, completed_at := PStr (strftime now2)\<rparr>"
    by (simp add: mark_complete_def)
  show ?thesis using a b c d by simp
qed

theorem complete_twice_witness:
  "\<exists>m1 fs1 m2 fs2.
     complete_task evening office no_disk 1 = ((m1, fs1), True) \<and>
     get_task m1 1 = Some (milk\<lparr>task_id := PInt 1, completed := PBool True,
                               completed_at := PStr ''2024-01-15 18:30:05''\<rparr>) \<and>
     complete_task next_day m1 fs1 1 = ((m2, fs2), True) \<and>
     get_task m2 1 = Some (milk\<lparr>task_id := PInt 1, completed := PBool True,
                               completed_at := PStr ''2024-01-16 00:00:01''\<rparr>) \<and>
     fs2 = save_tasks m2 fs1"
  using complete_twice [OF office_milk, of evening no_disk next_day] stamps by simp

text \<open>
  C9. For a task whose \<^verbatim>\<open>completed\<close> field is true (any truthy value, \<^verbatim>\<open>True\<close> among
  them) \<^verbatim>\<open>is_overdue\<close> returns \<^verbatim>\<open>False\<close> whatever the deadline holds, so it raises
  nothing. An exception of \<^verbatim>\<open>is_overdue\<close> therefore comes from a task that is not
  completed, and so does an exception of \<^verbatim>\<open>get_overdue_tasks\<close>.
\<close>

theorem completed_never_parsed:
  "(truthy (completed t) \<longrightarrow> is_overdue now t = Inr False) \<and>
   (is_overdue now t = Inl e \<longrightarrow> \<not> truthy (completed t)) \<and>
   (get_overdue_tasks now m = Inl e \<longrightarrow>
      (\<exists>u\<in>set (tasks m). \<not> truthy (completed u) \<and> is_overdue now u = Inl e))"
proof -
  have a: "truthy (completed t) \<Longrightarrow> is_overdue now t = Inr False" for t
    by (simp add: is_overdue_def)
  have b: "\<not> truthy (completed u)" if "is_overdue now u = Inl e" for u
    using that a [of u] by auto
  have c: "\<exists>u\<in>set (tasks m). \<not> truthy (completed u) \<and> is_overdue now u = Inl e"
    if "get_overdue_tasks now m = Inl e"
  proof -
    from that obtain u where "u \<in> set (tasks m)" "is_overdue now u = Inl e"
      using select_raises [of "is_overdue now" "tasks m" e] by (auto simp: get_overdue_tasks_def)
    with b show ?thesis by blast
  qed
  show ?thesis using a b c by blast
qed

theorem completed_never_parsed_witness:
  "is_overdue morning (mark_complete evening garbled) = Inr False \<and>
   \<not> truthy (completed garbled) \<and>
   (\<exists>u\<in>set (tasks office). \<not> truthy (completed u) \<and> is_overdue morning u = Inl ValueError)"
  using garbled_raises
    completed_never_parsed [of "mark_complete evening garbled" morning ValueError office]
    completed_never_parsed [of garbled morning ValueError office]
  by blast

text \<open>
  C10. A task whose deadline is the empty string is treated like a task without a
  deadline: \<^verbatim>\<open>is_overdue\<close> returns \<^verbatim>\<open>False\<close> for every clock reading and whatever
  the other fields hold, the completion state included, and parses nothing.
\<close>

theorem empty_deadline_not_parsed:
  "is_overdue now (t\<lparr>deadline := PStr []\<rparr>) = Inr False \<and>
   is_overdue now (t\<lparr>deadline := PNone\<rparr>) = Inr False \<and>
   is_overdue now (Task_init now0 ttl descr prio cat (PStr [])) = Inr False"
  by (simp add: is_overdue_def Task_init_def)


end
